theory Spec2Isabelle
  imports Main
begin

section \<open>The Electron iframe webview: find session and focus wiring\<close>

text \<open>
  A shallow embedding of the class \<^verbatim>\<open>ElectronIframeWebview\<close> of
  \<^verbatim>\<open>vs/workbench/contrib/webview/electron-sandbox/iframeWebviewElement.ts\<close>.
  The object's fields are a record, every method is a function from the object before
  the call to the object after it, and everything the object does to the outside (calls
  on the main-process webview service, values fired on the \<^verbatim>\<open>hasFindResult\<close>
  emitter, calls the keyboard handler makes on the host) is appended, in program order,
  to the field \<open>effects\<close>. The calls on the find widget (\<^verbatim>\<open>updateTheme\<close>,
  \<^verbatim>\<open>reveal\<close>, \<^verbatim>\<open>hide\<close>) and the DOM mounting are not traced.
\<close>

subsection \<open>Data\<close>

text \<open>
  The last argument of \<^verbatim>\<open>findInFrame\<close> is an object literal; it is modelled as the
  list of its properties, so that the literal \<^verbatim>\<open>{}\<close> of the source is \<open>[]\<close>.
\<close>

type_synonym find_in_frame_options = "(string \<times> bool) list"

text \<open>
  The effects, with their arguments as the source passes them:
  \<^item> \<open>FindInFrame windowId id value options\<close> for
    \<^verbatim>\<open>_webviewMainService.findInFrame({ windowId }, this.id, value, options)\<close>;
  \<^item> \<open>StopFindInFrame windowId id keepSelection\<close> for
    \<^verbatim>\<open>_webviewMainService.stopFindInFrame({ windowId }, this.id, { keepSelection })\<close>,
    where \<open>None\<close> is the omitted optional argument;
  \<^item> \<open>HasFindResultFire b\<close> for \<^verbatim>\<open>_hasFindResult.fire(b)\<close>;
  \<^item> \<open>SetIgnoreMenuShortcuts windowId b\<close> for the host call of the keyboard handler
    (registration when \<open>b\<close> is true, deregistration when it is false).
\<close>

datatype effect =
    FindInFrame nat string string find_in_frame_options
  | StopFindInFrame nat string "bool option"
  | HasFindResultFire bool
  | SetIgnoreMenuShortcuts nat bool

text \<open>
  Modelled from the spec: the class \<^verbatim>\<open>WindowIgnoreMenuShortcutsManager\<close> is imported
  by the source file but its code is not part of it. Section 4.3 of the specification
  describes it as a machine with the two states Unsuppressed and Suppressed; the field
  \<open>suppressed\<close> is that state.
\<close>

record shortcuts_manager =
  suppressed :: bool

text \<open>
  \<^verbatim>\<open>WebviewOptions\<close>: only \<^verbatim>\<open>enableFindWidget?: boolean\<close> is read by this class;
  \<open>None\<close> is the absent property, which JavaScript treats as false in a condition.
\<close>

record webview_options =
  enableFindWidget :: "bool option"

text \<open>
  The fields of the object. \<open>element\<close> tells whether \<^verbatim>\<open>this.element\<close> is defined,
  \<open>findStarted\<close> is \<^verbatim>\<open>_findStarted\<close>, \<open>webviewFindWidget\<close> tells whether
  \<^verbatim>\<open>_webviewFindWidget\<close> is defined, \<open>foundInPageListener\<close> whether the constructor
  registered the listener of the element's \<^verbatim>\<open>found-in-page\<close> event, and
  \<open>webviewKeyboardHandler\<close> is the state of \<^verbatim>\<open>_webviewKeyboardHandler\<close>.
\<close>

record webview =
  webview_id :: string
  windowId :: nat
  element :: bool
  findStarted :: bool
  webviewFindWidget :: bool
  foundInPageListener :: bool
  webviewKeyboardHandler :: shortcuts_manager
  effects :: "effect list"

subsection \<open>The emitter and the find methods\<close>

definition emit :: "effect \<Rightarrow> webview \<Rightarrow> webview" where
  "emit e w = w\<lparr>effects := effects w @ [e]\<rparr>"

definition hasFindResult_fire :: "bool \<Rightarrow> webview \<Rightarrow> webview" where
  "hasFindResult_fire b w = emit (HasFindResultFire b) w"

text \<open>
  \<^verbatim>\<open>startFind(value)\<close>: \<^verbatim>\<open>!value\<close> holds of a string exactly when it is empty.
\<close>

definition startFind :: "string \<Rightarrow> webview \<Rightarrow> webview" where
  "startFind val w =
     (if val = [] \<or> \<not> element w then w
      else emit (FindInFrame (windowId w) (webview_id w) val [])
             (w\<lparr>findStarted := True\<rparr>))"

text \<open>
  \<^verbatim>\<open>find(value, previous)\<close>. The parameter \<open>previous\<close> is not read by the body:
  the line that computed the options from it is commented out in the source.
\<close>

definition find_webview :: "string \<Rightarrow> bool \<Rightarrow> webview \<Rightarrow> webview" where
  "find_webview val previous w =
     (if \<not> element w then w
      else if \<not> findStarted w then startFind val w
      else emit (FindInFrame (windowId w) (webview_id w) val []) w)"

text \<open>\<^verbatim>\<open>stopFind(keepSelection?)\<close>.\<close>

definition stopFind :: "bool option \<Rightarrow> webview \<Rightarrow> webview" where
  "stopFind keepSelection w =
     (let w1 = hasFindResult_fire False w in
      if \<not> element w1 then w1
      else emit (StopFindInFrame (windowId w1) (webview_id w1) keepSelection)
             (w1\<lparr>findStarted := False\<rparr>))"

subsection \<open>The events the constructor subscribes to\<close>

text \<open>
  Modelled from the spec: \<^verbatim>\<open>WindowIgnoreMenuShortcutsManager.didFocus\<close>, whose code is
  not in the source file. By section 4.3 the focus event takes Unsuppressed to Suppressed
  with exactly one registering host call, and a focus event in the state Suppressed
  issues no call.
\<close>

definition WindowIgnoreMenuShortcutsManager_didFocus ::
    "nat \<Rightarrow> shortcuts_manager \<Rightarrow> effect list \<times> shortcuts_manager" where
  "WindowIgnoreMenuShortcutsManager_didFocus wid m =
     (if suppressed m then ([], m)
      else ([SetIgnoreMenuShortcuts wid True], m\<lparr>suppressed := True\<rparr>))"

text \<open>
  Modelled from the spec: \<^verbatim>\<open>WindowIgnoreMenuShortcutsManager.didBlur\<close>, whose code is
  not in the source file. By section 4.3 the blur event takes Suppressed to Unsuppressed
  with exactly one deregistering host call, and a blur event in the state Unsuppressed
  issues no call.
\<close>

definition WindowIgnoreMenuShortcutsManager_didBlur ::
    "nat \<Rightarrow> shortcuts_manager \<Rightarrow> effect list \<times> shortcuts_manager" where
  "WindowIgnoreMenuShortcutsManager_didBlur wid m =
     (if suppressed m then ([SetIgnoreMenuShortcuts wid False], m\<lparr>suppressed := False\<rparr>)
      else ([], m))"

text \<open>
  The handlers of the messages \<^verbatim>\<open>didFocus\<close> and \<^verbatim>\<open>didBlur\<close>: each message is
  forwarded to the keyboard handler, whatever came before.
\<close>

definition on_didFocus :: "webview \<Rightarrow> webview" where
  "on_didFocus w =
     (case WindowIgnoreMenuShortcutsManager_didFocus (windowId w) (webviewKeyboardHandler w) of
        (calls, m) \<Rightarrow> w\<lparr>webviewKeyboardHandler := m, effects := effects w @ calls\<rparr>)"

definition on_didBlur :: "webview \<Rightarrow> webview" where
  "on_didBlur w =
     (case WindowIgnoreMenuShortcutsManager_didBlur (windowId w) (webviewKeyboardHandler w) of
        (calls, m) \<Rightarrow> w\<lparr>webviewKeyboardHandler := m, effects := effects w @ calls\<rparr>)"

text \<open>
  The element's \<^verbatim>\<open>found-in-page\<close> event with \<^verbatim>\<open>e.result.matches = matches\<close>. The
  listener \<^verbatim>\<open>e => this._hasFindResult.fire(e.result.matches > 0)\<close> runs when the
  constructor registered it; otherwise the event has no listener in this class.
\<close>

definition on_found_in_page :: "int \<Rightarrow> webview \<Rightarrow> webview" where
  "on_found_in_page matches w =
     (if foundInPageListener w then hasFindResult_fire (0 < matches) w else w)"

subsection \<open>The constructor\<close>

text \<open>
  \<^verbatim>\<open>new ElectronIframeWebview(id, options, ...)\<close> in a window \<open>wid\<close>
  (\<^verbatim>\<open>nativeHostService.windowId\<close>). The element is created by the constructor of the
  base class, which the body relies on (\<^verbatim>\<open>this.element!\<close>); \<^verbatim>\<open>_findStarted\<close> is
  initialised to false; the find widget and the \<^verbatim>\<open>found-in-page\<close> listener exist
  exactly when \<^verbatim>\<open>options.enableFindWidget\<close> is true. The keyboard handler starts
  Unsuppressed.
\<close>

definition ElectronIframeWebview :: "string \<Rightarrow> webview_options \<Rightarrow> nat \<Rightarrow> webview" where
  "ElectronIframeWebview i options wid =
     \<lparr> webview_id = i,
       windowId = wid,
       element = True,
       findStarted = False,
       webviewFindWidget = (enableFindWidget options = Some True),
       foundInPageListener = (enableFindWidget options = Some True),
       webviewKeyboardHandler = \<lparr> suppressed = False \<rparr>,
       effects = [] \<rparr>"

subsection \<open>Runs\<close>

text \<open>
  A run is a list of calls and events, applied from the left. \<open>new_effects w w'\<close> is what
  a run from \<open>w\<close> to \<open>w'\<close> appended to the effects.
\<close>

datatype action =
    StartFind string
  | Find string bool
  | StopFind "bool option"
  | DidFocus
  | DidBlur
  | FoundInPage int

fun step :: "action \<Rightarrow> webview \<Rightarrow> webview" where
  "step (StartFind val) w = startFind val w"
| "step (Find val previous) w = find_webview val previous w"
| "step (StopFind keepSelection) w = stopFind keepSelection w"
| "step DidFocus w = on_didFocus w"
| "step DidBlur w = on_didBlur w"
| "step (FoundInPage matches) w = on_found_in_page matches w"

fun run :: "action list \<Rightarrow> webview \<Rightarrow> webview" where
  "run [] w = w"
| "run (a # as) w = run as (step a w)"

definition new_effects :: "webview \<Rightarrow> webview \<Rightarrow> effect list" where
  "new_effects w w' = drop (length (effects w)) (effects w')"

fun is_host_call :: "effect \<Rightarrow> bool" where
  "is_host_call (HasFindResultFire b) = False"
| "is_host_call e = True"

fun is_stop_call :: "effect \<Rightarrow> bool" where
  "is_stop_call (StopFindInFrame wid i k) = True"
| "is_stop_call e = False"

fun is_focus_event :: "action \<Rightarrow> bool" where
  "is_focus_event DidFocus = True"
| "is_focus_event DidBlur = True"
| "is_focus_event a = False"

fun is_result_event :: "action \<Rightarrow> bool" where
  "is_result_event (FoundInPage n) = True"
| "is_result_event a = False"

subsection \<open>Two concrete webviews\<close>

text \<open>
  A webview of window 1 constructed with the find widget enabled, and one constructed
  without the option.
\<close>

abbreviation sample_webview :: webview where
  "sample_webview \<equiv> ElectronIframeWebview ''wv'' \<lparr>enableFindWidget = Some True\<rparr> 1"

abbreviation plain_webview :: webview where
  "plain_webview \<equiv> ElectronIframeWebview ''wv'' \<lparr>enableFindWidget = None\<rparr> 1"

section \<open>Properties\<close>

subsection \<open>What each method and event appends and changes\<close>

lemma effects_startFind:
  "effects (startFind q w) =
     effects w @ (if q = [] \<or> \<not> element w then []
                  else [FindInFrame (windowId w) (webview_id w) q []])"
  by (simp add: startFind_def emit_def)

lemma effects_find_webview:
  "effects (find_webview q p w) =
     effects w @ (if \<not> element w \<or> (q = [] \<and> \<not> findStarted w) then []
                  else [FindInFrame (windowId w) (webview_id w) q []])"
  by (simp add: find_webview_def startFind_def emit_def)

lemma effects_stopFind:
  "effects (stopFind k w) =
     effects w @ HasFindResultFire False #
       (if element w then [StopFindInFrame (windowId w) (webview_id w) k] else [])"
  by (simp add: stopFind_def hasFindResult_fire_def emit_def Let_def)

lemma findStarted_stopFind:
  "findStarted (stopFind k w) = (findStarted w \<and> \<not> element w)"
  by (simp add: stopFind_def hasFindResult_fire_def emit_def Let_def)

lemma element_stopFind: "element (stopFind k w) = element w"
  by (simp add: stopFind_def hasFindResult_fire_def emit_def Let_def)

lemma ids_stopFind:
  "windowId (stopFind k w) = windowId w" "webview_id (stopFind k w) = webview_id w"
  by (simp_all add: stopFind_def hasFindResult_fire_def emit_def Let_def)

lemma listener_stopFind: "foundInPageListener (stopFind k w) = foundInPageListener w"
  by (simp add: stopFind_def hasFindResult_fire_def emit_def Let_def)

lemma effects_on_found_in_page:
  "effects (on_found_in_page n w) =
     effects w @ (if foundInPageListener w then [HasFindResultFire (0 < n)] else [])"
  by (simp add: on_found_in_page_def hasFindResult_fire_def emit_def)

lemma listener_on_found_in_page:
  "foundInPageListener (on_found_in_page n w) = foundInPageListener w"
  by (simp add: on_found_in_page_def hasFindResult_fire_def emit_def)

lemma effects_on_didFocus:
  "effects (on_didFocus w) =
     effects w @ (if suppressed (webviewKeyboardHandler w) then []
                  else [SetIgnoreMenuShortcuts (windowId w) True])"
  by (simp add: on_didFocus_def WindowIgnoreMenuShortcutsManager_didFocus_def)

lemma effects_on_didBlur:
  "effects (on_didBlur w) =
     effects w @ (if suppressed (webviewKeyboardHandler w)
                  then [SetIgnoreMenuShortcuts (windowId w) False] else [])"
  by (simp add: on_didBlur_def WindowIgnoreMenuShortcutsManager_didBlur_def)

lemma handler_on_didFocus:
  "suppressed (webviewKeyboardHandler (on_didFocus w))" "windowId (on_didFocus w) = windowId w"
  by (simp_all add: on_didFocus_def WindowIgnoreMenuShortcutsManager_didFocus_def)

lemma handler_on_didBlur:
  "\<not> suppressed (webviewKeyboardHandler (on_didBlur w))" "windowId (on_didBlur w) = windowId w"
  by (simp_all add: on_didBlur_def WindowIgnoreMenuShortcutsManager_didBlur_def)

lemma listener_step: "foundInPageListener (step a w) = foundInPageListener w"
  by (cases a)
     (simp_all add: startFind_def find_webview_def stopFind_def on_didFocus_def on_didBlur_def
        on_found_in_page_def hasFindResult_fire_def emit_def Let_def
        WindowIgnoreMenuShortcutsManager_didFocus_def WindowIgnoreMenuShortcutsManager_didBlur_def)

subsection \<open>Runs of result events\<close>

lemma effects_run_found_in_page:
  "foundInPageListener w \<Longrightarrow>
     effects (run (map FoundInPage ns) w) = effects w @ map (\<lambda>n. HasFindResultFire (0 < n)) ns"
  by (induction ns arbitrary: w) (simp_all add: effects_on_found_in_page listener_on_found_in_page)

lemma run_skips_result_events:
  "\<not> foundInPageListener w \<Longrightarrow> run acts w = run (filter (\<lambda>a. \<not> is_result_event a) acts) w"
proof (induction acts arbitrary: w)
  case Nil
  show ?case by simp
next
  case (Cons a acts)
  show ?case
  proof (cases "is_result_event a")
    case True
    then obtain n where "a = FoundInPage n" by (cases a) simp_all
    with Cons show ?thesis by (simp add: on_found_in_page_def)
  next
    case False
    with Cons.prems have "\<not> foundInPageListener (step a w)" by (simp add: listener_step)
    from Cons.IH [OF this] False show ?thesis by simp
  qed
qed

lemma no_true_step:
  "\<not> foundInPageListener w \<Longrightarrow> HasFindResultFire True \<notin> set (effects w) \<Longrightarrow>
     HasFindResultFire True \<notin> set (effects (step a w))"
  by (cases a)
     (simp_all add: effects_startFind effects_find_webview effects_stopFind
        effects_on_found_in_page effects_on_didFocus effects_on_didBlur)

lemma no_true_run:
  "\<not> foundInPageListener w \<Longrightarrow> HasFindResultFire True \<notin> set (effects w) \<Longrightarrow>
     HasFindResultFire True \<notin> set (effects (run acts w))"
  by (induction acts arbitrary: w) (simp_all add: no_true_step listener_step)

subsection \<open>Runs of focus and blur events\<close>

text \<open>
  The host calls of a run of focus and blur events are the states the events ask for,
  with the current state in front, adjacent repetitions removed and the front dropped.
\<close>

lemma tl_remdups_adj_Cons:
  "tl (remdups_adj (s # x # xs)) =
     (if s = x then tl (remdups_adj (x # xs)) else remdups_adj (x # xs))"
  by simp

lemma map_remdups_adj_Cons:
  "map f (remdups_adj (x # xs)) = f x # map f (tl (remdups_adj (x # xs)))"
proof -
  have "map f (remdups_adj (x # xs)) = map f (x # tl (remdups_adj (x # xs)))"
    by (simp only: remdups_adj_Cons_alt)
  then show ?thesis by (simp only: list.map)
qed

lemma effects_run_focus_events:
  "list_all is_focus_event evs \<Longrightarrow>
     effects (run evs w) =
       effects w @ map (SetIgnoreMenuShortcuts (windowId w))
         (tl (remdups_adj (suppressed (webviewKeyboardHandler w) # map (\<lambda>a. a = DidFocus) evs)))"
proof (induction evs arbitrary: w)
  case Nil
  then show ?case by simp
next
  case (Cons a evs)
  then have rest: "list_all is_focus_event evs" by simp
  show ?case
  proof (cases a)
    case DidFocus
    have "effects (run (a # evs) w) = effects (run evs (on_didFocus w))"
      using DidFocus by simp
    also have "\<dots> = effects (on_didFocus w) @ map (SetIgnoreMenuShortcuts (windowId w))
         (tl (remdups_adj (True # map (\<lambda>a. a = DidFocus) evs)))"
      using Cons.IH [OF rest, of "on_didFocus w"] by (simp add: handler_on_didFocus)
    finally show ?thesis
      using DidFocus
      by (cases "suppressed (webviewKeyboardHandler w)")
         (simp_all add: effects_on_didFocus map_remdups_adj_Cons tl_remdups_adj_Cons
            del: remdups_adj.simps)
  next
    case DidBlur
    have "effects (run (a # evs) w) = effects (run evs (on_didBlur w))"
      using DidBlur by simp
    also have "\<dots> = effects (on_didBlur w) @ map (SetIgnoreMenuShortcuts (windowId w))
         (tl (remdups_adj (False # map (\<lambda>a. a = DidFocus) evs)))"
      using Cons.IH [OF rest, of "on_didBlur w"] by (simp add: handler_on_didBlur)
    finally show ?thesis
      using DidBlur
      by (cases "suppressed (webviewKeyboardHandler w)")
         (simp_all add: effects_on_didBlur map_remdups_adj_Cons tl_remdups_adj_Cons
            del: remdups_adj.simps)
  qed (use Cons.prems in simp_all)
qed

lemma distinct_adj_tl: "distinct_adj xs \<Longrightarrow> distinct_adj (tl xs)"
  by (cases xs) (simp_all add: distinct_adj_ConsD)

lemma distinct_adj_focus_calls:
  "distinct_adj (map (SetIgnoreMenuShortcuts wid) (tl (remdups_adj bs)))"
  by (rule distinct_adj_mapI) (simp_all add: distinct_adj_tl inj_on_def)

section \<open>The claims\<close>

subsection \<open>find with an active session\<close>

text \<open>
  C1 says that \<open>find\<close> with an active session signals the direction through
  \<open>previous\<close>. The code does not: \<open>find\<close> gives the same result for both values of
  \<open>previous\<close> in every state, and with a session started by \<open>startFind\<close> the call
  \<open>find(''foo'', true)\<close> dispatches \<open>findInFrame\<close> with the empty options, the very
  dispatch \<open>startFind\<close> made for the fresh search.
\<close>

theorem find_previous_not_signalled:
  "find_webview q True w = find_webview q False w
   \<and> findStarted (startFind ''foo'' sample_webview)
   \<and> new_effects (startFind ''foo'' sample_webview)
        (find_webview ''foo'' True (startFind ''foo'' sample_webview))
       = [FindInFrame 1 ''wv'' ''foo'' []]
   \<and> new_effects sample_webview (startFind ''foo'' sample_webview)
       = [FindInFrame 1 ''wv'' ''foo'' []]"
  by (simp add: find_webview_def new_effects_def startFind_def emit_def
      ElectronIframeWebview_def)

subsection \<open>The empty query\<close>

text \<open>
  C2 says that the empty query is ignored by \<open>startFind\<close> and \<open>find\<close> in every state.
  \<open>startFind\<close> ignores it, and so does \<open>find\<close> without a session or without an
  element; but with a session started on a ready surface \<open>find('''', false)\<close> dispatches
  \<open>findInFrame\<close> with the empty query.
\<close>

theorem find_empty_query_active_dispatches:
  "startFind [] w = w
   \<and> find_webview [] previous (w\<lparr>findStarted := False\<rparr>) = w\<lparr>findStarted := False\<rparr>
   \<and> find_webview [] previous (w\<lparr>element := False\<rparr>) = w\<lparr>element := False\<rparr>
   \<and> findStarted (startFind ''foo'' sample_webview)
   \<and> element (startFind ''foo'' sample_webview)
   \<and> new_effects (startFind ''foo'' sample_webview)
        (find_webview [] False (startFind ''foo'' sample_webview))
       = [FindInFrame 1 ''wv'' [] []]"
  by (simp add: find_webview_def new_effects_def startFind_def emit_def
      ElectronIframeWebview_def)

subsection \<open>stopFind and the started flag\<close>

text \<open>
  C3, as amended: on a ready surface the started flag is false after \<open>stopFind\<close>,
  whatever it was before; on a surface that is not ready \<open>stopFind\<close> leaves the flag
  as it was. A second \<open>stopFind\<close> leaves the flag as the first one did, and the
  element is not touched.
\<close>

theorem stopFind_resets_started_when_ready:
  "(element w \<longrightarrow> \<not> findStarted (stopFind k w))
   \<and> (\<not> element w \<longrightarrow> findStarted (stopFind k w) = findStarted w)
   \<and> findStarted (stopFind k' (stopFind k w)) = findStarted (stopFind k w)
   \<and> element (stopFind k w) = element w"
  by (auto simp add: findStarted_stopFind element_stopFind)

text \<open>The amended statement at a started session on a ready surface.\<close>

theorem stopFind_resets_started_when_ready_witness:
  "element (startFind ''foo'' sample_webview)
   \<and> findStarted (startFind ''foo'' sample_webview)
   \<and> \<not> findStarted (stopFind None (startFind ''foo'' sample_webview))
   \<and> \<not> findStarted (stopFind None (stopFind None (startFind ''foo'' sample_webview)))"
  using stopFind_resets_started_when_ready
          [of "startFind ''foo'' sample_webview" None None]
  by (simp add: startFind_def emit_def ElectronIframeWebview_def)

text \<open>
  C3 as stated fails: a session is started, the element is then gone, and
  \<open>stopFind\<close> returns before it reaches the assignment, so the flag is still true.
\<close>

theorem stopFind_not_ready_keeps_started:
  "findStarted (stopFind None ((startFind ''foo'' sample_webview)\<lparr>element := False\<rparr>))"
  by (simp add: findStarted_stopFind startFind_def emit_def ElectronIframeWebview_def)

subsection \<open>stopFind and the host stop request\<close>

text \<open>
  C4, as amended: \<open>stopFind\<close> dispatches the stop request exactly when the surface is
  ready, whether a session was active or not; two calls in a row dispatch it twice on a
  ready surface and never on one that is not ready; the started flag after the second
  call is what it was after the first.
\<close>

theorem stopFind_dispatches_iff_ready:
  "filter is_stop_call (new_effects w (stopFind k w))
     = (if element w then [StopFindInFrame (windowId w) (webview_id w) k] else [])
   \<and> filter is_stop_call (new_effects w (stopFind k' (stopFind k w)))
     = (if element w then [StopFindInFrame (windowId w) (webview_id w) k,
                           StopFindInFrame (windowId w) (webview_id w) k'] else [])
   \<and> findStarted (stopFind k' (stopFind k w)) = findStarted (stopFind k w)"
  by (simp add: new_effects_def effects_stopFind element_stopFind ids_stopFind
      findStarted_stopFind)

text \<open>
  C4 as stated fails: on a fresh webview, where no session was ever started, two calls
  of \<open>stopFind\<close> in a row dispatch two stop requests.
\<close>

theorem stopFind_twice_dispatches_twice:
  "\<not> findStarted sample_webview
   \<and> new_effects sample_webview (stopFind None (stopFind None sample_webview))
       = [HasFindResultFire False, StopFindInFrame 1 ''wv'' None,
          HasFindResultFire False, StopFindInFrame 1 ''wv'' None]
   \<and> length (filter is_stop_call
        (new_effects sample_webview (stopFind None (stopFind None sample_webview)))) = 2"
  by (simp add: new_effects_def effects_stopFind element_stopFind ids_stopFind
      ElectronIframeWebview_def)

subsection \<open>stopFind clears the signal first\<close>

text \<open>
  C5: in every state, whether a session is started or not and whether the element
  exists or not, what \<open>stopFind\<close> does begins with firing \<open>false\<close> on the result signal;
  whatever follows is a host call (the stop request, on a ready surface) and no second
  firing.
\<close>

theorem stopFind_fires_false_first:
  "\<exists>rest. new_effects w (stopFind k w) = HasFindResultFire False # rest
      \<and> list_all is_host_call rest"
  by (simp add: new_effects_def effects_stopFind)

subsection \<open>find without a session\<close>

text \<open>
  C6, as amended: when no session is started, \<open>find(q, previous)\<close> is \<open>startFind(q)\<close>:
  the two calls return the same object, effects included, for either value of
  \<open>previous\<close>. For a non-empty query on a ready surface both dispatch \<open>findInFrame\<close>
  with the query and the empty options and leave the session started; on a surface that
  is not ready both dispatch nothing and leave the session not started.
\<close>

theorem find_without_session_is_startFind:
  "\<not> findStarted w \<Longrightarrow>
     find_webview q previous w = startFind q w
     \<and> (q \<noteq> [] \<and> element w \<longrightarrow>
          new_effects w (find_webview q previous w)
            = [FindInFrame (windowId w) (webview_id w) q []]
          \<and> new_effects w (startFind q w)
            = [FindInFrame (windowId w) (webview_id w) q []]
          \<and> findStarted (find_webview q previous w)
          \<and> findStarted (startFind q w))
     \<and> (\<not> element w \<longrightarrow>
          find_webview q previous w = w \<and> startFind q w = w
          \<and> new_effects w (find_webview q previous w) = []
          \<and> \<not> findStarted (find_webview q previous w))"
  by (simp add: find_webview_def startFind_def new_effects_def emit_def)

text \<open>The amended statement at a fresh webview and the query \<open>''bar''\<close>.\<close>

theorem find_without_session_is_startFind_witness:
  "\<not> findStarted sample_webview \<and> element sample_webview
   \<and> find_webview ''bar'' False sample_webview = startFind ''bar'' sample_webview
   \<and> new_effects sample_webview (find_webview ''bar'' False sample_webview)
       = [FindInFrame 1 ''wv'' ''bar'' []]
   \<and> findStarted (find_webview ''bar'' False sample_webview)"
  using find_without_session_is_startFind [of sample_webview "''bar''" False]
  by (simp add: ElectronIframeWebview_def)

text \<open>
  C6 as stated fails: on a webview whose element is not defined and with no session,
  \<open>find(''bar'', false)\<close> returns at its first check; nothing is dispatched and the
  session is not started.
\<close>

theorem find_not_ready_does_not_start:
  "\<not> findStarted (sample_webview\<lparr>element := False\<rparr>)
   \<and> new_effects (sample_webview\<lparr>element := False\<rparr>)
        (find_webview ''bar'' False (sample_webview\<lparr>element := False\<rparr>)) = []
   \<and> \<not> findStarted (find_webview ''bar'' False (sample_webview\<lparr>element := False\<rparr>))"
  by (simp add: find_webview_def new_effects_def ElectronIframeWebview_def)

subsection \<open>Result events\<close>

text \<open>
  C7, as amended: when the listener of \<^verbatim>\<open>found-in-page\<close> is registered (the webview
  was constructed with \<^verbatim>\<open>enableFindWidget\<close>), an event with match count \<open>n\<close> fires
  \<open>0 < n\<close> on the result signal and changes nothing else, so a run of events fires the
  list of their tests \<open>0 < n\<close>, one by one: count 0 then count 5 fires false then true,
  count 5 then count 0 fires true then false.
\<close>

theorem found_in_page_republishes_positive:
  "foundInPageListener w \<Longrightarrow>
     on_found_in_page n w = w\<lparr>effects := effects w @ [HasFindResultFire (0 < n)]\<rparr>
     \<and> new_effects w (run (map FoundInPage ns) w) = map (\<lambda>n. HasFindResultFire (0 < n)) ns
     \<and> new_effects w (on_found_in_page 5 (on_found_in_page 0 w))
         = [HasFindResultFire False, HasFindResultFire True]
     \<and> new_effects w (on_found_in_page 0 (on_found_in_page 5 w))
         = [HasFindResultFire True, HasFindResultFire False]"
  by (simp add: new_effects_def effects_run_found_in_page effects_on_found_in_page
      listener_on_found_in_page)
     (simp add: on_found_in_page_def hasFindResult_fire_def emit_def)

text \<open>The amended statement at a webview with the find widget and the counts 0, 5, 0.\<close>

theorem found_in_page_republishes_positive_witness:
  "foundInPageListener sample_webview
   \<and> new_effects sample_webview (run (map FoundInPage [0, 5, 0]) sample_webview)
       = [HasFindResultFire False, HasFindResultFire True, HasFindResultFire False]"
  using found_in_page_republishes_positive [of sample_webview 3 "[0, 5, 0]"]
  by (simp add: ElectronIframeWebview_def)

text \<open>
  C7 as stated fails: a webview constructed without \<^verbatim>\<open>enableFindWidget\<close> has no
  listener, and an event with match count 5 fires nothing.
\<close>

theorem found_in_page_without_widget_silent:
  "new_effects plain_webview (on_found_in_page 5 plain_webview) = []"
  by (simp add: new_effects_def effects_on_found_in_page ElectronIframeWebview_def)

subsection \<open>Focus and blur\<close>

text \<open>
  C8: in every run of focus and blur events no two consecutive host calls of the
  keyboard handler are equal (no registration follows a registration, no deregistration
  a deregistration); the calls are exactly the changes of the state the events ask for.
  From the state Unsuppressed two focus events issue one registering call, and the blur
  after them one deregistering call.
\<close>

theorem focus_blur_no_redundant_calls:
  "list_all is_focus_event evs \<Longrightarrow>
     distinct_adj (new_effects w (run evs w))
     \<and> new_effects w (run evs w) =
         map (SetIgnoreMenuShortcuts (windowId w))
           (tl (remdups_adj (suppressed (webviewKeyboardHandler w) # map (\<lambda>a. a = DidFocus) evs)))
     \<and> (\<not> suppressed (webviewKeyboardHandler w) \<longrightarrow>
          new_effects w (run [DidFocus, DidFocus] w)
            = [SetIgnoreMenuShortcuts (windowId w) True]
          \<and> new_effects (run [DidFocus, DidFocus] w) (run [DidFocus, DidFocus, DidBlur] w)
            = [SetIgnoreMenuShortcuts (windowId w) False])"
proof (intro conjI impI)
  assume evs: "list_all is_focus_event evs"
  show eq: "new_effects w (run evs w) =
         map (SetIgnoreMenuShortcuts (windowId w))
           (tl (remdups_adj (suppressed (webviewKeyboardHandler w) # map (\<lambda>a. a = DidFocus) evs)))"
    by (simp add: new_effects_def effects_run_focus_events [OF evs])
  show "distinct_adj (new_effects w (run evs w))"
    by (simp only: eq distinct_adj_focus_calls)
next
  assume "\<not> suppressed (webviewKeyboardHandler w)"
  then show "new_effects w (run [DidFocus, DidFocus] w)
            = [SetIgnoreMenuShortcuts (windowId w) True]"
    by (simp add: new_effects_def effects_on_didFocus handler_on_didFocus)
next
  assume "\<not> suppressed (webviewKeyboardHandler w)"
  then show "new_effects (run [DidFocus, DidFocus] w) (run [DidFocus, DidFocus, DidBlur] w)
            = [SetIgnoreMenuShortcuts (windowId w) False]"
    by (simp add: new_effects_def effects_on_didFocus effects_on_didBlur handler_on_didFocus)
qed

text \<open>The statement at a fresh webview: focus, focus, blur, blur, focus.\<close>

theorem focus_blur_no_redundant_calls_witness:
  "list_all is_focus_event [DidFocus, DidFocus, DidBlur, DidBlur, DidFocus]
   \<and> \<not> suppressed (webviewKeyboardHandler sample_webview)
   \<and> new_effects sample_webview
        (run [DidFocus, DidFocus, DidBlur, DidBlur, DidFocus] sample_webview)
       = [SetIgnoreMenuShortcuts 1 True, SetIgnoreMenuShortcuts 1 False,
          SetIgnoreMenuShortcuts 1 True]
   \<and> new_effects sample_webview (run [DidFocus, DidFocus] sample_webview)
       = [SetIgnoreMenuShortcuts 1 True]"
  using focus_blur_no_redundant_calls
          [of "[DidFocus, DidFocus, DidBlur, DidBlur, DidFocus]" sample_webview]
  by (simp add: ElectronIframeWebview_def)

subsection \<open>Result events need the find widget\<close>

text \<open>
  C9: the constructor registers the \<^verbatim>\<open>found-in-page\<close> listener exactly when
  \<^verbatim>\<open>options.enableFindWidget\<close> is true. Without it, every run from the constructed
  webview is the run with its result events removed, and \<open>true\<close> is never fired on the
  signal; \<open>startFind\<close> and \<open>find\<close> still dispatch \<open>findInFrame\<close> (with and without a
  session), and \<open>stopFind\<close> still fires \<open>false\<close> and dispatches the stop request.
\<close>

theorem result_events_need_find_widget:
  "foundInPageListener (ElectronIframeWebview i options wid)
     = (enableFindWidget options = Some True)
   \<and> (enableFindWidget options \<noteq> Some True \<longrightarrow>
        run acts (ElectronIframeWebview i options wid)
          = run (filter (\<lambda>a. \<not> is_result_event a) acts) (ElectronIframeWebview i options wid)
        \<and> HasFindResultFire True \<notin> set (effects (run acts (ElectronIframeWebview i options wid)))
        \<and> (q \<noteq> [] \<longrightarrow>
             effects (startFind q (ElectronIframeWebview i options wid))
               = [FindInFrame wid i q []]
             \<and> effects (find_webview q previous (ElectronIframeWebview i options wid))
               = [FindInFrame wid i q []]
             \<and> effects (find_webview q previous (startFind q (ElectronIframeWebview i options wid)))
               = [FindInFrame wid i q [], FindInFrame wid i q []])
        \<and> effects (stopFind k (ElectronIframeWebview i options wid))
            = [HasFindResultFire False, StopFindInFrame wid i k])"
proof (intro conjI impI)
  show "foundInPageListener (ElectronIframeWebview i options wid)
     = (enableFindWidget options = Some True)"
    by (simp add: ElectronIframeWebview_def)
next
  assume off: "enableFindWidget options \<noteq> Some True"
  then have nl: "\<not> foundInPageListener (ElectronIframeWebview i options wid)"
    by (simp add: ElectronIframeWebview_def)
  show "run acts (ElectronIframeWebview i options wid)
          = run (filter (\<lambda>a. \<not> is_result_event a) acts) (ElectronIframeWebview i options wid)"
    by (rule run_skips_result_events [OF nl])
  show "HasFindResultFire True \<notin> set (effects (run acts (ElectronIframeWebview i options wid)))"
    by (rule no_true_run [OF nl]) (simp add: ElectronIframeWebview_def)
  show "effects (stopFind k (ElectronIframeWebview i options wid))
            = [HasFindResultFire False, StopFindInFrame wid i k]"
    by (simp add: effects_stopFind ElectronIframeWebview_def)
  assume q: "q \<noteq> []"
  then show "effects (startFind q (ElectronIframeWebview i options wid))
               = [FindInFrame wid i q []]"
    by (simp add: effects_startFind ElectronIframeWebview_def)
  from q show "effects (find_webview q previous (ElectronIframeWebview i options wid))
               = [FindInFrame wid i q []]"
    by (simp add: effects_find_webview ElectronIframeWebview_def)
  from q show "effects (find_webview q previous (startFind q (ElectronIframeWebview i options wid)))
               = [FindInFrame wid i q [], FindInFrame wid i q []]"
    by (simp add: find_webview_def startFind_def emit_def ElectronIframeWebview_def)
qed

text \<open>
  The statement at a webview constructed without the option: a search is started, a
  result event with three matches arrives, the search is stopped, another event arrives.
\<close>

theorem result_events_need_find_widget_witness:
  "enableFindWidget \<lparr>enableFindWidget = None\<rparr> \<noteq> Some True
   \<and> \<not> foundInPageListener plain_webview
   \<and> effects (run [StartFind ''foo'', FoundInPage 3, StopFind None, FoundInPage 2] plain_webview)
       = [FindInFrame 1 ''wv'' ''foo'' [], HasFindResultFire False,
          StopFindInFrame 1 ''wv'' None]
   \<and> effects (stopFind None plain_webview)
       = [HasFindResultFire False, StopFindInFrame 1 ''wv'' None]"
  using result_events_need_find_widget
          [of "''wv''" "\<lparr>enableFindWidget = None\<rparr>" 1
              "[StartFind ''foo'', FoundInPage 3, StopFind None, FoundInPage 2]"
              "''foo''" False None]
  by (simp add: startFind_def stopFind_def hasFindResult_fire_def emit_def Let_def
      ElectronIframeWebview_def)

subsection \<open>A result event after stopFind\<close>

text \<open>
  C10: the registered result-event handler fires \<open>0 < n\<close> whatever the started flag is.
  In particular an event with a positive match count that arrives after \<open>stopFind\<close>
  fires \<open>true\<close>: on a ready surface the session is then not started, \<open>false\<close> was fired
  and the stop request dispatched, and \<open>true\<close> is fired after them, the session staying
  not started.
\<close>

theorem result_event_after_stopFind_fires_true:
  "foundInPageListener w \<Longrightarrow>
     new_effects (w\<lparr>findStarted := b\<rparr>) (on_found_in_page n (w\<lparr>findStarted := b\<rparr>))
       = [HasFindResultFire (0 < n)]
     \<and> (0 < n \<longrightarrow>
          new_effects (stopFind k w) (on_found_in_page n (stopFind k w))
            = [HasFindResultFire True]
          \<and> (element w \<longrightarrow>
               \<not> findStarted (stopFind k w)
               \<and> new_effects w (on_found_in_page n (stopFind k w))
                   = [HasFindResultFire False, StopFindInFrame (windowId w) (webview_id w) k,
                      HasFindResultFire True]
               \<and> \<not> findStarted (on_found_in_page n (stopFind k w))))"
  by (simp add: new_effects_def effects_on_found_in_page listener_stopFind
      findStarted_stopFind effects_stopFind)
     (simp add: on_found_in_page_def hasFindResult_fire_def emit_def findStarted_stopFind
      listener_stopFind)

text \<open>
  The statement at a started session with the find widget: stop, then an event with three
  matches.
\<close>

theorem result_event_after_stopFind_fires_true_witness:
  "foundInPageListener (startFind ''foo'' sample_webview)
   \<and> (0::int) < 3 \<and> element (startFind ''foo'' sample_webview)
   \<and> effects (on_found_in_page 3 (stopFind None (startFind ''foo'' sample_webview)))
       = [FindInFrame 1 ''wv'' ''foo'' [], HasFindResultFire False,
          StopFindInFrame 1 ''wv'' None, HasFindResultFire True]
   \<and> \<not> findStarted (stopFind None (startFind ''foo'' sample_webview))"
  using result_event_after_stopFind_fires_true
          [of "startFind ''foo'' sample_webview" True 3 None]
  by (simp add: startFind_def stopFind_def on_found_in_page_def hasFindResult_fire_def
      emit_def Let_def ElectronIframeWebview_def)

end
